theory Spec2Isabelle
  imports Main "HOL-Library.Sublist" "HOL-Library.Log_Nat"
begin

section \<open>JavaScript strings and numbers\<close>

text \<open>
  A JavaScript string is a sequence of UTF-16 code units. The model uses \<^typ>\<open>string\<close>:
  every \<^typ>\<open>char\<close> is the code unit with the same number, so the strings covered are
  those over U+0000..U+00FF. \<open>length\<close> is the \<open>.length\<close> of such a string.
\<close>

definition isWhiteSpace :: "char \<Rightarrow> bool" where
  \<comment> \<open>WhiteSpace and LineTerminator of ECMAScript below U+0100: what \<open>trim()\<close> strips and
      \<open>\s\<close> matches.\<close>
  "isWhiteSpace c =
     (c \<in> set [CHR 0x09, CHR 0x0A, CHR 0x0B, CHR 0x0C, CHR 0x0D, CHR 0x20, CHR 0xA0])"

definition trim :: "string \<Rightarrow> string" where
  "trim s = rev (dropWhile isWhiteSpace (rev (dropWhile isWhiteSpace s)))"

definition toLowerChar :: "char \<Rightarrow> char" where
  \<comment> \<open>A-Z, and the capital letters U+00C0..U+00DE without the multiplication sign.\<close>
  "toLowerChar c =
     (let n = (of_char c :: nat)
      in if (65 \<le> n \<and> n \<le> 90) \<or> (192 \<le> n \<and> n \<le> 222 \<and> n \<noteq> 215)
         then char_of (n + 32) else c)"

definition toLowerCase :: "string \<Rightarrow> string" where
  "toLowerCase s = map toLowerChar s"

definition startsWith :: "string \<Rightarrow> string \<Rightarrow> bool" where
  "startsWith s t = prefix t s"

definition endsWith :: "string \<Rightarrow> string \<Rightarrow> bool" where
  "endsWith s t = suffix t s"

fun includes_str :: "string \<Rightarrow> string \<Rightarrow> bool" where
  "includes_str [] t = (t = [])"
| "includes_str (c # s) t = (prefix t (c # s) \<or> includes_str s t)"

definition slice0 :: "string \<Rightarrow> int \<Rightarrow> string" where
  \<comment> \<open>\<open>s.slice(0, end)\<close> for an integer \<open>end\<close>: a negative end counts from the end of s.\<close>
  "slice0 s e = (if e < 0 then take (nat (int (length s) + e)) s else take (nat e) s)"

fun splitOn :: "char \<Rightarrow> string \<Rightarrow> string list" where
  \<comment> \<open>\<open>s.split(d)\<close> for a one-character separator.\<close>
  "splitOn d [] = [[]]"
| "splitOn d (c # cs) =
     (if c = d then [] # splitOn d cs
      else (case splitOn d cs of [] \<Rightarrow> [[c]] | l # ls \<Rightarrow> (c # l) # ls))"

fun joinWith :: "char \<Rightarrow> string list \<Rightarrow> string" where
  \<comment> \<open>\<open>parts.join(d)\<close>.\<close>
  "joinWith d [] = []"
| "joinWith d [x] = x"
| "joinWith d (x # y # ys) = x @ d # joinWith d (y # ys)"

fun splitLines :: "string \<Rightarrow> string list" where
  \<comment> \<open>\<open>s.split(/\r?\n/)\<close>: a line feed ends a line, and a carriage return right before
      it belongs to the separator.\<close>
  "splitLines [] = [[]]"
| "splitLines (c # cs) =
     (if c = CHR 0x0A then [] # splitLines cs
      else if c = CHR 0x0D \<and> prefix [CHR 0x0A] cs then splitLines cs
      else (case splitLines cs of [] \<Rightarrow> [[c]] | l # ls \<Rightarrow> (c # l) # ls))"

fun collapseWhitespace :: "string \<Rightarrow> string" where
  \<comment> \<open>\<open>s.replace(/\s+/g, " ")\<close>: every maximal run of white space becomes one space.\<close>
  "collapseWhitespace [] = []"
| "collapseWhitespace (c # cs) =
     (if isWhiteSpace c
      then (case cs of
              [] \<Rightarrow> [CHR '' '']
            | d # ds \<Rightarrow> if isWhiteSpace d then collapseWhitespace cs
                        else CHR '' '' # collapseWhitespace cs)
      else c # collapseWhitespace cs)"

fun splitWhitespace :: "string \<Rightarrow> string list" where
  \<comment> \<open>\<open>s.split(/\s+/)\<close>.\<close>
  "splitWhitespace [] = [[]]"
| "splitWhitespace (c # cs) =
     (if isWhiteSpace c
      then (case cs of
              [] \<Rightarrow> [[], []]
            | d # ds \<Rightarrow> if isWhiteSpace d then splitWhitespace cs
                        else [] # splitWhitespace cs)
      else (case splitWhitespace cs of [] \<Rightarrow> [[c]] | l # ls \<Rightarrow> (c # l) # ls))"

text \<open>
  A JavaScript number is a binary64 value: not-a-number, an infinity, or a finite
  rational. The sign of zero is not kept (no code below reads it).
\<close>

datatype jsnum = NaN | PosInfinity | NegInfinity | Finite rat

definition isFinite :: "jsnum \<Rightarrow> bool" where
  \<comment> \<open>\<open>Number.isFinite\<close>.\<close>
  "isFinite n = (case n of Finite q \<Rightarrow> True | _ \<Rightarrow> False)"

definition floorLog2 :: "rat \<Rightarrow> int" where
  \<comment> \<open>For \<open>0 < q\<close>: the e with \<open>2 ^ e \<le> q < 2 ^ (e + 1)\<close>.\<close>
  "floorLog2 q = (if 1 \<le> q then bitlen \<lfloor>q\<rfloor> - 1 else - bitlen (\<lceil>1 / q\<rceil> - 1))"

definition roundHalfEven :: "rat \<Rightarrow> int" where
  "roundHalfEven x =
     (let f = \<lfloor>x\<rfloor>; d = x - of_int f
      in if d < 1 / 2 then f else if 1 / 2 < d then f + 1 else if even f then f else f + 1)"

definition toDouble :: "rat \<Rightarrow> jsnum" where
  \<comment> \<open>The binary64 value nearest to q, ties to even: 53 significant bits, exponents
      from -1022 (below which the spacing stays \<open>2 ^ -1074\<close>), and an infinity from
      \<open>2 ^ 1024\<close> on.\<close>
  "toDouble q =
     (if q = 0 then Finite 0
      else let a = \<bar>q\<bar>;
               e = max (floorLog2 a) (- 1022);
               ulp = 2 powi (e - 52);
               r = of_int (roundHalfEven (a / ulp)) * ulp
           in if 2 powi 1024 \<le> r then (if 0 < q then PosInfinity else NegInfinity)
              else Finite (if 0 < q then r else - r))"

definition isDigit :: "char \<Rightarrow> bool" where
  "isDigit c = (c \<in> set ''0123456789'')"

definition digitsValue :: "string \<Rightarrow> int" where
  "digitsValue ds = foldl (\<lambda>n c. 10 * n + (of_char c - 48)) 0 ds"

definition signOf :: "string \<Rightarrow> bool \<times> string" where
  \<comment> \<open>An optional leading sign: whether it is a minus, and the rest.\<close>
  "signOf s =
     (case s of
        [] \<Rightarrow> (False, s)
      | c # cs \<Rightarrow> if c = CHR ''-'' then (True, cs)
                  else if c = CHR ''+'' then (False, cs) else (False, s))"

definition exponentPart :: "string \<Rightarrow> int" where
  \<comment> \<open>ExponentPart, when the text starts with one: e or E, an optional sign, digits.\<close>
  "exponentPart s =
     (case s of
        [] \<Rightarrow> 0
      | c # cs \<Rightarrow>
          if c = CHR ''e'' \<or> c = CHR ''E''
          then (let (neg, ds) = signOf cs; digits = takeWhile isDigit ds
                in if digits = [] then 0
                   else if neg then - digitsValue digits else digitsValue digits)
          else 0)"

definition parseFloat :: "string \<Rightarrow> jsnum" where
  \<comment> \<open>\<open>Number.parseFloat\<close>: the longest prefix of the text, leading white space
      skipped, that is a StrDecimalLiteral; not-a-number when there is none.\<close>
  "parseFloat input =
     (let (neg, s) = signOf (dropWhile isWhiteSpace input)
      in if prefix ''Infinity'' s then (if neg then NegInfinity else PosInfinity)
         else let ip = takeWhile isDigit s;
                  r1 = dropWhile isDigit s;
                  (fp, r2) = (case r1 of
                                [] \<Rightarrow> ([], r1)
                              | c # cs \<Rightarrow> if c = CHR ''.''
                                          then (takeWhile isDigit cs, dropWhile isDigit cs)
                                          else ([], r1))
              in if ip = [] \<and> fp = [] then NaN
                 else let mv = of_int (digitsValue (ip @ fp))
                               * 10 powi (exponentPart r2 - int (length fp))
                      in toDouble (if neg then - mv else mv))"

section \<open>Robots directives\<close>

record RobotsRules =
  disallow :: "string list"
  allow :: "string list"
  crawlDelay :: "jsnum option"

definition noRules :: RobotsRules where
  \<comment> \<open>The rule set \<open>parseRobots\<close> starts from.\<close>
  "noRules = \<lparr>disallow = [], allow = [], crawlDelay = None\<rparr>"

definition robotsLine :: "RobotsRules \<times> bool \<Rightarrow> string \<Rightarrow> RobotsRules \<times> bool" where
  \<comment> \<open>One turn of the loop of \<open>parseRobots\<close>, on the pair of \<open>rules\<close> and \<open>applies\<close>.\<close>
  "robotsLine st line =
     (let (rules, applies) = st; cleaned = trim line
      in if cleaned = [] \<or> startsWith cleaned ''#'' then st
         else (case splitOn CHR '':'' cleaned of
                 [] \<Rightarrow> st
               | rawKey # rest \<Rightarrow>
                   if rawKey = [] \<or> rest = [] then st
                   else let key = toLowerCase (trim rawKey);
                            val = trim (joinWith CHR '':'' rest)
                        in if key = ''user-agent''
                           then (let ua = toLowerCase val
                                 in (rules, ua = ''*'' \<or> includes_str ua ''agent-permissions''))
                           else if \<not> applies then st
                           else if key = ''disallow''
                           then (if val \<noteq> []
                                 then (rules\<lparr>disallow := disallow rules @ [val]\<rparr>, applies)
                                 else st)
                           else if key = ''allow''
                           then (if val \<noteq> []
                                 then (rules\<lparr>allow := allow rules @ [val]\<rparr>, applies)
                                 else st)
                           else if key = ''crawl-delay''
                           then (let delay = parseFloat val
                                 in if isFinite delay
                                    then (rules\<lparr>crawlDelay := Some delay\<rparr>, applies)
                                    else st)
                           else st))"

definition robotsLoop :: "string list \<Rightarrow> RobotsRules" where
  \<comment> \<open>The loop over the lines, from the empty rule set with \<open>applies = false\<close>.\<close>
  "robotsLoop ls = fst (foldl robotsLine (noRules, False) ls)"

definition parseRobots :: "string \<Rightarrow> RobotsRules" where
  "parseRobots content = robotsLoop (splitLines content)"

definition directiveOf :: "string \<Rightarrow> (string \<times> string) option" where
  \<comment> \<open>The directive a line holds, as the specification words it: the trimmed line,
      unless it is blank or a comment, split at its first colon into a key, trimmed and
      in lower case, and a value, trimmed; none without a colon or without a key.\<close>
  "directiveOf line =
     (let cleaned = trim line;
          k = takeWhile (\<lambda>c. c \<noteq> CHR '':'') cleaned;
          r = dropWhile (\<lambda>c. c \<noteq> CHR '':'') cleaned
      in if cleaned = [] \<or> startsWith cleaned ''#'' \<or> k = [] \<or> r = [] then None
         else Some (toLowerCase (trim k), trim (tl r)))"

definition agentLine :: "string \<Rightarrow> bool" where
  \<comment> \<open>The line is a user-agent directive that opens an applicable block: its value is
      \<open>*\<close> or contains the agent token, in any case.\<close>
  "agentLine line =
     (case directiveOf line of
        None \<Rightarrow> False
      | Some (k, v) \<Rightarrow>
          k = ''user-agent''
          \<and> (toLowerCase v = ''*'' \<or> includes_str (toLowerCase v) ''agent-permissions''))"

definition matchesRule :: "string \<Rightarrow> string \<Rightarrow> bool" where
  "matchesRule targetPath rulePath =
     (if rulePath = [] \<or> rulePath = ''/'' then True
      else if endsWith rulePath ''$'' then targetPath = slice0 rulePath (- 1)
      else startsWith targetPath rulePath)"

fun firstMatch :: "string \<Rightarrow> string list \<Rightarrow> bool" where
  \<comment> \<open>A loop of \<open>isPathAllowed\<close>: whether it returns at some pattern of the list.\<close>
  "firstMatch p [] = False"
| "firstMatch p (r # rs) = (if matchesRule p r then True else firstMatch p rs)"

definition isPathAllowed :: "string \<Rightarrow> RobotsRules option \<Rightarrow> bool" where
  "isPathAllowed path rules =
     (case rules of
        None \<Rightarrow> True
      | Some rs \<Rightarrow>
          let normalizedPath = (if path = [] then ''/'' else path)
          in if firstMatch normalizedPath (allow rs) then True
             else if firstMatch normalizedPath (disallow rs) then False
             else True)"

section \<open>Page extraction\<close>

definition truncate_str :: "string \<Rightarrow> int \<Rightarrow> string" where
  "truncate_str text maxLength =
     (if int (length text) \<le> maxLength then text else slice0 text maxLength @ ''...'')"

definition defaultMaxHtmlChars :: int where
  "defaultMaxHtmlChars = 20000"

definition defaultMaxTextChars :: int where
  "defaultMaxTextChars = 12000"

text \<open>
  The fields of a \<open>PageSummary\<close> that \<open>crawlSite\<close> computes from the body's markup and
  text; the others are the URL and the results of queries on the parsed document.
\<close>

record PageSummary =
  textContent :: string
  htmlContent :: string
  isTextTruncated :: bool
  isHtmlTruncated :: bool
  wordCount :: nat

definition pageSummary :: "string option \<Rightarrow> string \<Rightarrow> int \<Rightarrow> int \<Rightarrow> PageSummary" where
  \<comment> \<open>\<open>html\<close> is \<open>body.html()\<close> (null when there is no body) and \<open>text\<close> is
      \<open>body.text()\<close>.\<close>
  "pageSummary html text maxHtmlChars maxTextChars =
     (let bodyHtml = (case html of None \<Rightarrow> [] | Some h \<Rightarrow> trim h);
          htmlContent' = truncate_str bodyHtml maxHtmlChars;
          rawText = trim (collapseWhitespace text);
          textContent' = truncate_str rawText maxTextChars
      in \<lparr>textContent = textContent',
          htmlContent = htmlContent',
          isTextTruncated = (length textContent' < length rawText),
          isHtmlTruncated = (length htmlContent' < length bodyHtml),
          wordCount = (if rawText \<noteq> [] then length (splitWhitespace rawText) else 0)\<rparr>)"

section \<open>Policy documents\<close>

text \<open>
  A value decoded by \<open>JSON.parse\<close>. An object is the list of its own properties in
  insertion order, each key once; \<open>undefined\<close> (a missing property) is \<^term>\<open>None\<close> of
  \<^typ>\<open>'a option\<close>.
\<close>

datatype json =
  JNull | JBool bool | JNum jsnum | JStr string | JArr "json list" | JObj "(string \<times> json) list"

definition typeof :: "json option \<Rightarrow> string" where
  "typeof v =
     (case v of
        None \<Rightarrow> ''undefined''
      | Some JNull \<Rightarrow> ''object''
      | Some (JBool b) \<Rightarrow> ''boolean''
      | Some (JNum n) \<Rightarrow> ''number''
      | Some (JStr s) \<Rightarrow> ''string''
      | Some (JArr xs) \<Rightarrow> ''object''
      | Some (JObj fs) \<Rightarrow> ''object'')"

definition truthy :: "json option \<Rightarrow> bool" where
  \<comment> \<open>ToBoolean.\<close>
  "truthy v =
     (case v of
        None \<Rightarrow> False
      | Some JNull \<Rightarrow> False
      | Some (JBool b) \<Rightarrow> b
      | Some (JNum n) \<Rightarrow> n \<noteq> NaN \<and> n \<noteq> Finite 0
      | Some (JStr s) \<Rightarrow> s \<noteq> []
      | Some (JArr xs) \<Rightarrow> True
      | Some (JObj fs) \<Rightarrow> True)"

definition getProp :: "json \<Rightarrow> string \<Rightarrow> json option" where
  \<comment> \<open>\<open>v.k\<close> for the property names read by \<open>parsePolicy\<close>, none of which is an index,
      \<open>length\<close> or a name on a built-in prototype: only an object has such a property.
      Reading a property of \<open>null\<close> throws; \<open>parsePolicy\<close> below has that case.\<close>
  "getProp v k = (case v of JObj fs \<Rightarrow> map_of fs k | _ \<Rightarrow> None)"

definition arrayOr :: "json option \<Rightarrow> json list" where
  \<comment> \<open>\<open>Array.isArray(v) ? v : []\<close>.\<close>
  "arrayOr v = (case v of Some (JArr xs) \<Rightarrow> xs | _ \<Rightarrow> [])"

definition stringOf :: "json option \<Rightarrow> string" where
  \<comment> \<open>The string that a value of type string is.\<close>
  "stringOf v = (case v of Some (JStr s) \<Rightarrow> s | _ \<Rightarrow> [])"

definition boolOf :: "json option \<Rightarrow> bool" where
  \<comment> \<open>The boolean that a value of type boolean is.\<close>
  "boolOf v = (case v of Some (JBool b) \<Rightarrow> b | _ \<Rightarrow> False)"

record ResourceRule =
  verb :: string
  selector :: string
  allowed :: bool
  modifiers :: "json option"

record ActionGuideline =
  directive :: string
  description :: string
  exceptions :: "json option"

record ParsedPolicy =
  error :: "string option"
  metadata :: "json option"
  resourceRules :: "ResourceRule list"
  actionGuidelines :: "ActionGuideline list"

datatype RateLimit = Gentle | Standard | Open

record QuickBuilderState =
  siteName :: string
  allowReadContent :: bool
  allowReadMetadata :: bool
  allowNavigation :: bool
  allowForms :: bool
  requireHumanForForms :: bool
  blockLogin :: bool
  rateLimit :: RateLimit
  allowDownloads :: bool

definition buildRateLimit :: "RateLimit \<Rightarrow> json option" where
  "buildRateLimit r =
     (if r = Open then None
      else if r = Standard
      then Some (JObj [(''rate_limit'',
                        JObj [(''max_requests'', JNum (Finite 5)),
                              (''window_seconds'', JNum (Finite 10))])])
      else Some (JObj [(''rate_limit'',
                        JObj [(''max_requests'', JNum (Finite 1)),
                              (''window_seconds'', JNum (Finite 1))])]))"

definition humanInTheLoop :: "QuickBuilderState \<Rightarrow> json option" where
  \<comment> \<open>The modifiers of the two form rules.\<close>
  "humanInTheLoop state =
     (if allowForms state \<and> requireHumanForForms state
      then Some (JObj [(''human_in_the_loop'', JBool True)]) else None)"

definition quickRules :: "QuickBuilderState \<Rightarrow> ResourceRule list" where
  \<comment> \<open>The array \<open>rules\<close> of \<open>buildQuickPolicy\<close>; a rule written without modifiers has
      none.\<close>
  "quickRules state =
     [\<lparr>verb = ''read_content'', selector = ''*'', allowed = allowReadContent state,
       modifiers = None\<rparr>,
      \<lparr>verb = ''read_metadata'', selector = ''*'', allowed = allowReadMetadata state,
       modifiers = None\<rparr>,
      \<lparr>verb = ''follow_link'', selector = ''*'', allowed = allowNavigation state,
       modifiers = (if allowNavigation state then buildRateLimit (rateLimit state) else None)\<rparr>,
      \<lparr>verb = ''set_input_value'',
       selector = ''form input, form textarea, form select, form option, form button'',
       allowed = allowForms state, modifiers = humanInTheLoop state\<rparr>,
      \<lparr>verb = ''submit_form'', selector = ''form'', allowed = allowForms state,
       modifiers = humanInTheLoop state\<rparr>,
      \<lparr>verb = ''execute_script'', selector = ''*'', allowed = False, modifiers = None\<rparr>,
      \<lparr>verb = ''upload_file'', selector = ''input[type='file']'', allowed = False,
       modifiers = None\<rparr>,
      \<lparr>verb = ''download_file'',
       selector = (if allowDownloads state then ''*'' else ''a[download], [role='button']''),
       allowed = allowDownloads state, modifiers = None\<rparr>]"

definition guideline :: "string \<Rightarrow> string \<Rightarrow> ActionGuideline" where
  "guideline d t = \<lparr>directive = d, description = t, exceptions = None\<rparr>"

definition quickGuidelines :: "QuickBuilderState \<Rightarrow> ActionGuideline list" where
  \<comment> \<open>The array \<open>guidelines\<close>: the entries that are not null, in order.\<close>
  "quickGuidelines state =
     List.map_filter (\<lambda>g. g)
       [if blockLogin state
        then Some (guideline ''MUST NOT''
               ''Attempt to log in or submit credentials, MFA codes, or session tokens.'')
        else None,
        if allowForms state
        then Some (guideline (if requireHumanForForms state then ''SHOULD'' else ''SHOULD'')
               (if requireHumanForForms state
                then ''Confirm with a human before submitting forms or irreversible actions.''
                else ''Keep form submissions minimal and avoid sensitive personal data.''))
        else None,
        if rateLimit state = Gentle
        then Some (guideline ''SHOULD''
               ''Throttle navigation to roughly one request per second.'')
        else None,
        if rateLimit state = Standard
        then Some (guideline ''SHOULD''
               ''Stay within ~5 requests every 10 seconds to reduce load.'')
        else None]"

definition ruleJson :: "ResourceRule \<Rightarrow> json" where
  \<comment> \<open>The \<open>cleaned\<close> copy of a rule: modifiers that are undefined are deleted.\<close>
  "ruleJson r =
     JObj ([(''verb'', JStr (verb r)), (''selector'', JStr (selector r)),
            (''allowed'', JBool (allowed r))]
           @ (case modifiers r of None \<Rightarrow> [] | Some m \<Rightarrow> [(''modifiers'', m)]))"

definition guidelineJson :: "ActionGuideline \<Rightarrow> json" where
  "guidelineJson g =
     JObj ([(''directive'', JStr (directive g)), (''description'', JStr (description g))]
           @ (case exceptions g of None \<Rightarrow> [] | Some e \<Rightarrow> [(''exceptions'', e)]))"

definition quickPolicy :: "QuickBuilderState \<Rightarrow> string \<Rightarrow> json" where
  \<comment> \<open>The object \<open>policy\<close>; \<open>now\<close> is \<open>new Date().toISOString()\<close>.\<close>
  "quickPolicy state now =
     JObj [(''metadata'',
            JObj ([(''schema_version'', JStr ''1.0.0''), (''last_updated'', JStr now)]
                  @ (if trim (siteName state) \<noteq> []
                     then [(''author'', JStr (trim (siteName state)))] else []))),
           (''resource_rules'', JArr (map ruleJson (quickRules state))),
           (''action_guidelines'', JArr (map guidelineJson (quickGuidelines state)))]"

definition buildQuickPolicy :: "(json \<Rightarrow> string) \<Rightarrow> QuickBuilderState \<Rightarrow> string \<Rightarrow> string" where
  \<comment> \<open>\<open>stringify v\<close> is \<open>JSON.stringify(v, null, 2)\<close>.\<close>
  "buildQuickPolicy stringify state now = stringify (quickPolicy state now)"

definition isResourceRule :: "json \<Rightarrow> bool" where
  \<comment> \<open>The predicate of the first filter of \<open>parsePolicy\<close>.\<close>
  "isResourceRule rule =
     (truthy (Some rule)
      \<and> typeof (getProp rule ''verb'') = ''string''
      \<and> typeof (getProp rule ''selector'') = ''string''
      \<and> typeof (getProp rule ''allowed'') = ''boolean'')"

definition toResourceRule :: "json \<Rightarrow> ResourceRule" where
  "toResourceRule rule =
     \<lparr>verb = stringOf (getProp rule ''verb''),
      selector = stringOf (getProp rule ''selector''),
      allowed = boolOf (getProp rule ''allowed''),
      modifiers = getProp rule ''modifiers''\<rparr>"

definition isActionGuideline :: "json \<Rightarrow> bool" where
  \<comment> \<open>The predicate of the second filter.\<close>
  "isActionGuideline item =
     (truthy (Some item)
      \<and> typeof (getProp item ''directive'') = ''string''
      \<and> typeof (getProp item ''description'') = ''string'')"

definition toActionGuideline :: "json \<Rightarrow> ActionGuideline" where
  "toActionGuideline item =
     \<lparr>directive = stringOf (getProp item ''directive''),
      description = stringOf (getProp item ''description''),
      exceptions = getProp item ''exceptions''\<rparr>"

definition nullMetadataMessage :: string where
  \<comment> \<open>The message of the TypeError thrown by \<open>data.metadata\<close> when \<open>data\<close> is null (the
      engine's wording).\<close>
  "nullMetadataMessage = ''Cannot read properties of null (reading 'metadata')''"

definition failedPolicy :: "string \<Rightarrow> ParsedPolicy" where
  \<comment> \<open>The result of the catch block.\<close>
  "failedPolicy message =
     \<lparr>error = Some message, metadata = None, resourceRules = [], actionGuidelines = []\<rparr>"

definition parsePolicy :: "(string \<Rightarrow> string + json) \<Rightarrow> string \<Rightarrow> ParsedPolicy" where
  \<comment> \<open>\<open>parse raw\<close> is \<open>JSON.parse(raw)\<close>: the decoded value, or the message of the
      SyntaxError it throws.\<close>
  "parsePolicy parse raw =
     (if trim raw = []
      then \<lparr>error = None, metadata = None, resourceRules = [], actionGuidelines = []\<rparr>
      else (case parse raw of
              Inl message \<Rightarrow> failedPolicy message
            | Inr data \<Rightarrow>
                if data = JNull then failedPolicy nullMetadataMessage
                else \<lparr>error = None,
                      metadata = (if typeof (getProp data ''metadata'') = ''object''
                                     \<and> truthy (getProp data ''metadata'')
                                  then getProp data ''metadata'' else None),
                      resourceRules =
                        map toResourceRule
                          (filter isResourceRule (arrayOr (getProp data ''resource_rules''))),
                      actionGuidelines =
                        map toActionGuideline
                          (filter isActionGuideline
                             (arrayOr (getProp data ''action_guidelines'')))\<rparr>))"

section \<open>The parser's contract, and sample documents\<close>

text \<open>
  What the specification says \<open>parse\<close> keeps, written on the decoded value itself: the
  entries of a top-level array, and the typed record an entry of the right shape stands
  for.
\<close>

definition spec_entries :: "json \<Rightarrow> string \<Rightarrow> json list" where
  "spec_entries doc k =
     (case doc of
        JObj fs \<Rightarrow> (case map_of fs k of Some (JArr xs) \<Rightarrow> xs | _ \<Rightarrow> [])
      | _ \<Rightarrow> [])"

definition spec_resourceRule :: "json \<Rightarrow> ResourceRule option" where
  \<comment> \<open>An object with a string verb, a string selector and a boolean allowed; its
      modifiers, if any, as they are.\<close>
  "spec_resourceRule e =
     (case e of
        JObj fs \<Rightarrow>
          (case map_of fs ''verb'' of
             Some (JStr v) \<Rightarrow>
               (case map_of fs ''selector'' of
                  Some (JStr s) \<Rightarrow>
                    (case map_of fs ''allowed'' of
                       Some (JBool a) \<Rightarrow>
                         Some \<lparr>verb = v, selector = s, allowed = a,
                               modifiers = map_of fs ''modifiers''\<rparr>
                     | _ \<Rightarrow> None)
                | _ \<Rightarrow> None)
           | _ \<Rightarrow> None)
      | _ \<Rightarrow> None)"

definition spec_actionGuideline :: "json \<Rightarrow> ActionGuideline option" where
  \<comment> \<open>An object with a string directive and a string description.\<close>
  "spec_actionGuideline e =
     (case e of
        JObj fs \<Rightarrow>
          (case map_of fs ''directive'' of
             Some (JStr d) \<Rightarrow>
               (case map_of fs ''description'' of
                  Some (JStr t) \<Rightarrow>
                    Some \<lparr>directive = d, description = t,
                          exceptions = map_of fs ''exceptions''\<rparr>
                | _ \<Rightarrow> None)
           | _ \<Rightarrow> None)
      | _ \<Rightarrow> None)"

definition spec_metadata :: "json \<Rightarrow> json option" where
  \<comment> \<open>The metadata of a decoded document when it is an object or an array.\<close>
  "spec_metadata doc =
     (case doc of
        JObj fs \<Rightarrow>
          (case map_of fs ''metadata'' of
             Some (JObj m) \<Rightarrow> Some (JObj m)
           | Some (JArr xs) \<Rightarrow> Some (JArr xs)
           | _ \<Rightarrow> None)
      | _ \<Rightarrow> None)"

text \<open>
  Sample inputs. \<open>sampleParse\<close> is \<open>JSON.parse\<close> on the three sample texts and on
  blank text, and \<open>sampleStringify\<close> is \<open>JSON.stringify(v, null, 2)\<close> on the sample
  policy; they stand for the two built-ins in the examples, which use them nowhere else.
\<close>

definition sampleState :: QuickBuilderState where
  "sampleState =
     \<lparr>siteName = '' Example Site '', allowReadContent = True, allowReadMetadata = True,
      allowNavigation = True, allowForms = True, requireHumanForForms = True,
      blockLogin = True, rateLimit = Standard, allowDownloads = False\<rparr>"

definition sampleNow :: string where
  "sampleNow = ''2024-01-01T00:00:00.000Z''"

definition samplePolicy :: json where
  "samplePolicy =
   JObj
    [(''metadata'', JObj
      [(''schema_version'', JStr ''1.0.0''),
       (''last_updated'', JStr ''2024-01-01T00:00:00.000Z''),
       (''author'', JStr ''Example Site'')]),
     (''resource_rules'', JArr
      [JObj
        [(''verb'', JStr ''read_content''),
         (''selector'', JStr ''*''),
         (''allowed'', JBool True)],
       JObj
        [(''verb'', JStr ''read_metadata''),
         (''selector'', JStr ''*''),
         (''allowed'', JBool True)],
       JObj
        [(''verb'', JStr ''follow_link''),
         (''selector'', JStr ''*''),
         (''allowed'', JBool True),
         (''modifiers'', JObj
          [(''rate_limit'', JObj
            [(''max_requests'', JNum (Finite 5)),
             (''window_seconds'', JNum (Finite 10))])])],
       JObj
        [(''verb'', JStr ''set_input_value''),
         (''selector'', JStr ''form input, form textarea, form select, form option, form button''),
         (''allowed'', JBool True),
         (''modifiers'', JObj
          [(''human_in_the_loop'', JBool True)])],
       JObj
        [(''verb'', JStr ''submit_form''),
         (''selector'', JStr ''form''),
         (''allowed'', JBool True),
         (''modifiers'', JObj
          [(''human_in_the_loop'', JBool True)])],
       JObj
        [(''verb'', JStr ''execute_script''),
         (''selector'', JStr ''*''),
         (''allowed'', JBool False)],
       JObj
        [(''verb'', JStr ''upload_file''),
         (''selector'', JStr ''input[type='file']''),
         (''allowed'', JBool False)],
       JObj
        [(''verb'', JStr ''download_file''),
         (''selector'', JStr ''a[download], [role='button']''),
         (''allowed'', JBool False)]]),
     (''action_guidelines'', JArr
      [JObj
        [(''directive'', JStr ''MUST NOT''),
         (''description'', JStr ''Attempt to log in or submit credentials, MFA codes, or session tokens.'')],
       JObj
        [(''directive'', JStr ''SHOULD''),
         (''description'', JStr ''Confirm with a human before submitting forms or irreversible actions.'')],
       JObj
        [(''directive'', JStr ''SHOULD''),
         (''description'', JStr ''Stay within ~5 requests every 10 seconds to reduce load.'')]])]"

definition samplePolicyText :: string where
  \<open>samplePolicyText =
     ''{\<newline>''
     @ ''  "metadata": {\<newline>''
     @ ''    "schema_version": "1.0.0",\<newline>''
     @ ''    "last_updated": "2024-01-01T00:00:00.000Z",\<newline>''
     @ ''    "author": "Example Site"\<newline>''
     @ ''  },\<newline>''
     @ ''  "resource_rules": [\<newline>''
     @ ''    {\<newline>''
     @ ''      "verb": "read_content",\<newline>''
     @ ''      "selector": "*",\<newline>''
     @ ''      "allowed": true\<newline>''
     @ ''    },\<newline>''
     @ ''    {\<newline>''
     @ ''      "verb": "read_metadata",\<newline>''
     @ ''      "selector": "*",\<newline>''
     @ ''      "allowed": true\<newline>''
     @ ''    },\<newline>''
     @ ''    {\<newline>''
     @ ''      "verb": "follow_link",\<newline>''
     @ ''      "selector": "*",\<newline>''
     @ ''      "allowed": true,\<newline>''
     @ ''      "modifiers": {\<newline>''
     @ ''        "rate_limit": {\<newline>''
     @ ''          "max_requests": 5,\<newline>''
     @ ''          "window_seconds": 10\<newline>''
     @ ''        }\<newline>''
     @ ''      }\<newline>''
     @ ''    },\<newline>''
     @ ''    {\<newline>''
     @ ''      "verb": "set_input_value",\<newline>''
     @ ''      "selector": "form input, form textarea, form select, form option, form button",\<newline>''
     @ ''      "allowed": true,\<newline>''
     @ ''      "modifiers": {\<newline>''
     @ ''        "human_in_the_loop": true\<newline>''
     @ ''      }\<newline>''
     @ ''    },\<newline>''
     @ ''    {\<newline>''
     @ ''      "verb": "submit_form",\<newline>''
     @ ''      "selector": "form",\<newline>''
     @ ''      "allowed": true,\<newline>''
     @ ''      "modifiers": {\<newline>''
     @ ''        "human_in_the_loop": true\<newline>''
     @ ''      }\<newline>''
     @ ''    },\<newline>''
     @ ''    {\<newline>''
     @ ''      "verb": "execute_script",\<newline>''
     @ ''      "selector": "*",\<newline>''
     @ ''      "allowed": false\<newline>''
     @ ''    },\<newline>''
     @ ''    {\<newline>''
     @ ''      "verb": "upload_file",\<newline>''
     @ ''      "selector": "input[type='file']",\<newline>''
     @ ''      "allowed": false\<newline>''
     @ ''    },\<newline>''
     @ ''    {\<newline>''
     @ ''      "verb": "download_file",\<newline>''
     @ ''      "selector": "a[download], [role='button']",\<newline>''
     @ ''      "allowed": false\<newline>''
     @ ''    }\<newline>''
     @ ''  ],\<newline>''
     @ ''  "action_guidelines": [\<newline>''
     @ ''    {\<newline>''
     @ ''      "directive": "MUST NOT",\<newline>''
     @ ''      "description": "Attempt to log in or submit credentials, MFA codes, or session tokens."\<newline>''
     @ ''    },\<newline>''
     @ ''    {\<newline>''
     @ ''      "directive": "SHOULD",\<newline>''
     @ ''      "description": "Confirm with a human before submitting forms or irreversible actions."\<newline>''
     @ ''    },\<newline>''
     @ ''    {\<newline>''
     @ ''      "directive": "SHOULD",\<newline>''
     @ ''      "description": "Stay within ~5 requests every 10 seconds to reduce load."\<newline>''
     @ ''    }\<newline>''
     @ ''  ]\<newline>''
     @ ''}''\<close>

definition sampleRulesText :: string where
  \<open>sampleRulesText = ''{"resource_rules":[{"verb":"x"}]}''\<close>

definition sampleRules :: json where
  "sampleRules = JObj [(''resource_rules'', JArr [JObj [(''verb'', JStr ''x'')]])]"

definition sampleMetadataText :: string where
  \<open>sampleMetadataText = ''{"metadata":[1]}''\<close>

definition sampleMetadata :: json where
  "sampleMetadata = JObj [(''metadata'', JArr [JNum (Finite 1)])]"

definition sampleParse :: "string \<Rightarrow> string + json" where
  "sampleParse raw =
     (if raw = samplePolicyText then Inr samplePolicy
      else if raw = sampleRulesText then Inr sampleRules
      else if raw = sampleMetadataText then Inr sampleMetadata
      else Inl ''Unexpected end of JSON input'')"

definition sampleStringify :: "json \<Rightarrow> string" where
  "sampleStringify v = (if v = samplePolicy then samplePolicyText else ''null'')"

section \<open>Path matching\<close>

lemma firstMatch_iff: "firstMatch p rs \<longleftrightarrow> (\<exists>r \<in> set rs. matchesRule p r)"
  by (induction rs) auto

text \<open>
  C7. For every path: the patterns \<open>""\<close> and \<open>"/"\<close> match it; a pattern that ends in
  \<open>$\<close> matches it exactly when the path is the pattern without that \<open>$\<close>; any other
  pattern matches it exactly when the path starts with the pattern's text.
\<close>

theorem matchesRule_patterns:
  "matchesRule path [] \<and> matchesRule path ''/''
   \<and> (matchesRule path (p @ ''$'') \<longleftrightarrow> path = p)
   \<and> (r \<noteq> [] \<and> r \<noteq> ''/'' \<and> (\<forall>q. r \<noteq> q @ ''$'')
        \<longrightarrow> (matchesRule path r \<longleftrightarrow> prefix r path))"
proof -
  have a: "matchesRule path []" "matchesRule path ''/''"
    by (simp_all add: matchesRule_def)
  have b: "matchesRule path (p @ ''$'') \<longleftrightarrow> path = p"
    by (auto simp add: matchesRule_def endsWith_def slice0_def suffix_def)
  have c: "matchesRule path r \<longleftrightarrow> prefix r path"
    if "r \<noteq> []" "r \<noteq> ''/''" "\<forall>q. r \<noteq> q @ ''$''"
    using that by (auto simp add: matchesRule_def endsWith_def startsWith_def suffix_def)
  from a b c show ?thesis by blast
qed

theorem matchesRule_patterns_witness:
  "matchesRule ''/any/path'' ''/'' \<and> matchesRule ''/a'' ''/a$''
   \<and> \<not> matchesRule ''/ab'' ''/a$''
   \<and> matchesRule ''/ab'' ''/a'' \<and> \<not> matchesRule ''/b'' ''/a''"
  using matchesRule_patterns [of "''/any/path''" "''/a''" "''/a''"]
    matchesRule_patterns [of "''/a''" "''/a''" "''/a''"]
    matchesRule_patterns [of "''/ab''" "''/a''" "''/a''"]
    matchesRule_patterns [of "''/b''" "''/a''" "''/a''"]
  by (simp add: suffix_to_prefix)

text \<open>
  C2, as amended. An absent rule set allows every path. With a rule set, the path is
  first normalised (the empty path becomes \<open>"/"\<close>); the result is allowed exactly when
  some allow entry matches the normalised path, whatever the disallow entries are, or
  no disallow entry matches it. The claim as written speaks of the path itself: the
  empty path is matched by the allow entry \<open>"$"\<close>, and is still refused.
\<close>

theorem isPathAllowed_allow_first:
  "isPathAllowed path None
   \<and> (isPathAllowed path (Some rs) \<longleftrightarrow>
        (\<exists>a \<in> set (allow rs). matchesRule (if path = [] then ''/'' else path) a)
        \<or> \<not> (\<exists>d \<in> set (disallow rs). matchesRule (if path = [] then ''/'' else path) d))"
  by (simp add: isPathAllowed_def firstMatch_iff Let_def)

theorem isPathAllowed_empty_path_counterexample:
  "matchesRule [] ''$''
   \<and> \<not> isPathAllowed [] (Some \<lparr>disallow = [''/''], allow = [''$''], crawlDelay = None\<rparr>)"
  by (simp add: isPathAllowed_def matchesRule_def endsWith_def startsWith_def slice0_def
      suffix_to_prefix)

theorem isPathAllowed_allow_first_witness:
  "isPathAllowed ''/docs/a''
     (Some \<lparr>disallow = [''/''], allow = [''/docs''], crawlDelay = None\<rparr>)
   \<and> \<not> isPathAllowed ''/admin''
     (Some \<lparr>disallow = [''/''], allow = [''/docs''], crawlDelay = None\<rparr>)
   \<and> isPathAllowed ''/admin''
     (Some \<lparr>disallow = [''/x''], allow = [''/docs''], crawlDelay = None\<rparr>)"
  using
    isPathAllowed_allow_first
      [of "''/docs/a''" "\<lparr>disallow = [''/''], allow = [''/docs''], crawlDelay = None\<rparr>"]
    isPathAllowed_allow_first
      [of "''/admin''" "\<lparr>disallow = [''/''], allow = [''/docs''], crawlDelay = None\<rparr>"]
    isPathAllowed_allow_first
      [of "''/admin''" "\<lparr>disallow = [''/x''], allow = [''/docs''], crawlDelay = None\<rparr>"]
  by (simp add: matchesRule_def endsWith_def startsWith_def slice0_def suffix_to_prefix)

section \<open>Parsing a policy\<close>

text \<open>
  C10. On an empty or white-space-only input \<open>parsePolicy\<close> returns no error, no
  metadata and two empty lists, whatever \<open>JSON.parse\<close> would do with that input (it
  rejects it).
\<close>

theorem parsePolicy_blank:
  "trim raw = [] \<Longrightarrow>
   parsePolicy parse raw
   = \<lparr>error = None, metadata = None, resourceRules = [], actionGuidelines = []\<rparr>"
  by (simp add: parsePolicy_def)

theorem parsePolicy_blank_witness:
  "trim [CHR '' '', CHR 0x0A, CHR 0x09] = []
   \<and> sampleParse [CHR '' '', CHR 0x0A, CHR 0x09] = Inl ''Unexpected end of JSON input''
   \<and> parsePolicy sampleParse [CHR '' '', CHR 0x0A, CHR 0x09]
     = \<lparr>error = None, metadata = None, resourceRules = [], actionGuidelines = []\<rparr>"
proof -
  have b: "trim [CHR '' '', CHR 0x0A, CHR 0x09] = []"
    by (simp add: trim_def isWhiteSpace_def)
  have e: "sampleParse [CHR '' '', CHR 0x0A, CHR 0x09] = Inl ''Unexpected end of JSON input''"
    by (simp add: sampleParse_def samplePolicyText_def sampleRulesText_def
        sampleMetadataText_def)
  from b e parsePolicy_blank [OF b, of sampleParse] show ?thesis by simp
qed

lemma trim_nonblank: "\<not> isWhiteSpace c \<Longrightarrow> trim (c # s) \<noteq> []"
  by (auto simp add: trim_def)

lemma samplePolicyText_nonblank: "trim samplePolicyText \<noteq> []"
proof -
  have "\<exists>t. samplePolicyText = CHR ''{'' # t"
    by (simp add: samplePolicyText_def)
  then obtain t where e: "samplePolicyText = CHR ''{'' # t" ..
  have "\<not> isWhiteSpace CHR ''{''"
    by (simp add: isWhiteSpace_def)
  then have "trim (CHR ''{'' # t) \<noteq> []"
    by (rule trim_nonblank)
  then show ?thesis
    unfolding e .
qed

lemma sampleRulesText_nonblank: "trim sampleRulesText \<noteq> []"
  by (simp add: sampleRulesText_def trim_nonblank isWhiteSpace_def)

lemma sampleParse_rules: "sampleParse sampleRulesText = Inr sampleRules"
  by (simp add: sampleParse_def sampleRulesText_def samplePolicyText_def)

lemma sampleParse_policy: "sampleParse samplePolicyText = Inr samplePolicy"
  by (simp add: sampleParse_def)

lemma quickPolicy_sample: "quickPolicy sampleState sampleNow = samplePolicy"
  by (simp add: quickPolicy_def sampleState_def sampleNow_def samplePolicy_def quickRules_def
      quickGuidelines_def ruleJson_def guidelineJson_def guideline_def trim_def isWhiteSpace_def
      buildRateLimit_def humanInTheLoop_def List.map_filter_def)

subsection \<open>The shape filters\<close>

lemma arrayOr_getProp: "arrayOr (getProp data k) = spec_entries data k"
  by (simp add: arrayOr_def getProp_def spec_entries_def split: json.splits option.splits)

lemma isResourceRule_spec:
  "spec_resourceRule e = (if isResourceRule e then Some (toResourceRule e) else None)"
  by (simp add: spec_resourceRule_def isResourceRule_def toResourceRule_def getProp_def
      typeof_def truthy_def stringOf_def boolOf_def split: json.splits option.splits)

lemma isActionGuideline_spec:
  "spec_actionGuideline e = (if isActionGuideline e then Some (toActionGuideline e) else None)"
  by (simp add: spec_actionGuideline_def isActionGuideline_def toActionGuideline_def
      getProp_def typeof_def truthy_def stringOf_def split: json.splits option.splits)

lemma filter_resourceRules:
  "map toResourceRule (filter isResourceRule xs) = List.map_filter spec_resourceRule xs"
  by (induction xs) (simp_all add: isResourceRule_spec)

lemma filter_actionGuidelines:
  "map toActionGuideline (filter isActionGuideline xs)
   = List.map_filter spec_actionGuideline xs"
  by (induction xs) (simp_all add: isActionGuideline_spec)

text \<open>
  C9. When the input is not blank and decodes, \<open>parsePolicy\<close> keeps, in order, exactly
  the entries of \<open>resource_rules\<close> that are objects with a string verb, a string
  selector and a boolean allowed (with their modifiers as they are), and exactly the
  entries of \<open>action_guidelines\<close> that are objects with a string directive and a string
  description. Every other entry is dropped, and no entry produces an error: the error
  is absent for every decoded value but \<open>null\<close>, which has no entries.
\<close>

theorem parsePolicy_keeps_shaped_entries:
  assumes "trim raw \<noteq> []" and "parse raw = Inr data"
  shows "resourceRules (parsePolicy parse raw)
           = List.map_filter spec_resourceRule (spec_entries data ''resource_rules'')
         \<and> actionGuidelines (parsePolicy parse raw)
           = List.map_filter spec_actionGuideline (spec_entries data ''action_guidelines'')
         \<and> (data \<noteq> JNull \<longrightarrow> error (parsePolicy parse raw) = None)"
proof (cases "data = JNull")
  case True
  with assms show ?thesis
    by (simp add: parsePolicy_def failedPolicy_def spec_entries_def)
next
  case False
  with assms show ?thesis
    by (simp add: parsePolicy_def filter_resourceRules filter_actionGuidelines arrayOr_getProp)
qed

theorem parsePolicy_keeps_shaped_entries_witness:
  "trim sampleRulesText \<noteq> [] \<and> sampleParse sampleRulesText = Inr sampleRules
   \<and> resourceRules (parsePolicy sampleParse sampleRulesText) = []
   \<and> actionGuidelines (parsePolicy sampleParse sampleRulesText) = []
   \<and> error (parsePolicy sampleParse sampleRulesText) = None"
  using parsePolicy_keeps_shaped_entries
      [of sampleRulesText sampleParse sampleRules, OF sampleRulesText_nonblank sampleParse_rules]
    sampleRulesText_nonblank sampleParse_rules
  by (simp add: sampleRules_def spec_entries_def spec_resourceRule_def)

text \<open>
  C5, as amended. When the input is not blank and decodes, the result carries the
  input's metadata exactly when the decoded metadata value is an object or an array
  (\<open>typeof\<close> gives \<open>"object"\<close> for both, and both are truthy); when it is absent, null,
  or a string, number or boolean, the result has no metadata. The claim as written
  admits plain objects only: metadata that is an array is carried through.
\<close>

theorem parsePolicy_metadata:
  "trim raw \<noteq> [] \<Longrightarrow> parse raw = Inr data \<Longrightarrow>
   metadata (parsePolicy parse raw) = spec_metadata data"
  by (auto simp add: parsePolicy_def spec_metadata_def failedPolicy_def getProp_def
      typeof_def truthy_def split: json.splits option.splits)

theorem parsePolicy_metadata_array_counterexample:
  "trim sampleMetadataText \<noteq> []
   \<and> sampleParse sampleMetadataText = Inr (JObj [(''metadata'', JArr [JNum (Finite 1)])])
   \<and> metadata (parsePolicy sampleParse sampleMetadataText) = Some (JArr [JNum (Finite 1)])"
  by (simp add: parsePolicy_def sampleParse_def sampleMetadataText_def sampleMetadata_def
      samplePolicyText_def sampleRulesText_def trim_def isWhiteSpace_def getProp_def
      typeof_def truthy_def)

theorem parsePolicy_metadata_witness:
  "trim samplePolicyText \<noteq> [] \<and> sampleParse samplePolicyText = Inr samplePolicy
   \<and> metadata (parsePolicy sampleParse samplePolicyText)
     = Some (JObj [(''schema_version'', JStr ''1.0.0''),
                   (''last_updated'', JStr ''2024-01-01T00:00:00.000Z''),
                   (''author'', JStr ''Example Site'')])
   \<and> metadata (parsePolicy sampleParse sampleRulesText) = None"
  using parsePolicy_metadata
      [of samplePolicyText sampleParse samplePolicy,
        OF samplePolicyText_nonblank sampleParse_policy]
    parsePolicy_metadata
      [of sampleRulesText sampleParse sampleRules, OF sampleRulesText_nonblank sampleParse_rules]
    samplePolicyText_nonblank sampleParse_policy
  by (simp add: spec_metadata_def samplePolicy_def sampleRules_def)

section \<open>Building a policy\<close>

lemma toResourceRule_ruleJson: "toResourceRule (ruleJson r) = r"
  by (cases "modifiers r")
    (simp_all add: toResourceRule_def ruleJson_def getProp_def stringOf_def boolOf_def)

lemma isResourceRule_ruleJson: "isResourceRule (ruleJson r)"
  by (simp add: isResourceRule_def ruleJson_def getProp_def typeof_def truthy_def)

lemma toActionGuideline_guidelineJson: "toActionGuideline (guidelineJson g) = g"
  by (cases "exceptions g")
    (simp_all add: toActionGuideline_def guidelineJson_def getProp_def stringOf_def)

lemma isActionGuideline_guidelineJson: "isActionGuideline (guidelineJson g)"
  by (simp add: isActionGuideline_def guidelineJson_def getProp_def typeof_def truthy_def)

lemma parse_rules_roundtrip:
  "map toResourceRule (filter isResourceRule (map ruleJson rs)) = rs"
  by (induction rs) (simp_all add: isResourceRule_ruleJson toResourceRule_ruleJson)

lemma parse_guidelines_roundtrip:
  "map toActionGuideline (filter isActionGuideline (map guidelineJson gs)) = gs"
  by (induction gs)
    (simp_all add: isActionGuideline_guidelineJson toActionGuideline_guidelineJson)

text \<open>
  C3. For every builder state and timestamp: if \<open>JSON.parse\<close> gives back the policy
  object from the text \<open>JSON.stringify\<close> wrote for it, and that text is not blank (both
  are facts about the two built-ins), then parsing the text that \<open>buildQuickPolicy\<close>
  returns yields no error, the rules of the builder, each with its verb, selector,
  allowed flag and modifiers, and the guidelines of the builder, in the same order.
\<close>

theorem build_then_parse:
  assumes "parse (stringify (quickPolicy state now)) = Inr (quickPolicy state now)"
    and "trim (stringify (quickPolicy state now)) \<noteq> []"
  shows "error (parsePolicy parse (buildQuickPolicy stringify state now)) = None
         \<and> resourceRules (parsePolicy parse (buildQuickPolicy stringify state now))
           = quickRules state
         \<and> actionGuidelines (parsePolicy parse (buildQuickPolicy stringify state now))
           = quickGuidelines state"
proof -
  have n: "quickPolicy state now \<noteq> JNull"
    by (simp add: quickPolicy_def)
  have r: "arrayOr (getProp (quickPolicy state now) ''resource_rules'')
           = map ruleJson (quickRules state)"
    by (simp add: quickPolicy_def getProp_def arrayOr_def)
  have g: "arrayOr (getProp (quickPolicy state now) ''action_guidelines'')
           = map guidelineJson (quickGuidelines state)"
    by (simp add: quickPolicy_def getProp_def arrayOr_def)
  from assms n show ?thesis
    by (simp add: parsePolicy_def buildQuickPolicy_def r g parse_rules_roundtrip
        parse_guidelines_roundtrip)
qed

theorem build_then_parse_witness:
  "buildQuickPolicy sampleStringify sampleState sampleNow = samplePolicyText
   \<and> sampleParse samplePolicyText = Inr (quickPolicy sampleState sampleNow)
   \<and> trim samplePolicyText \<noteq> []
   \<and> error (parsePolicy sampleParse samplePolicyText) = None
   \<and> resourceRules (parsePolicy sampleParse samplePolicyText) = quickRules sampleState
   \<and> actionGuidelines (parsePolicy sampleParse samplePolicyText)
     = quickGuidelines sampleState"
proof -
  have s: "sampleStringify samplePolicy = samplePolicyText"
    by (simp add: sampleStringify_def)
  have p: "sampleParse (sampleStringify (quickPolicy sampleState sampleNow))
           = Inr (quickPolicy sampleState sampleNow)"
    by (simp add: quickPolicy_sample s sampleParse_policy)
  have t: "trim (sampleStringify (quickPolicy sampleState sampleNow)) \<noteq> []"
    by (simp add: quickPolicy_sample s samplePolicyText_nonblank)
  from build_then_parse
      [of sampleParse sampleStringify sampleState sampleNow, OF p t] p t
  show ?thesis
    by (simp add: buildQuickPolicy_def quickPolicy_sample s)
qed

lemma quickPolicy_script_and_upload:
  "map (\<lambda>r. getProp r ''allowed'')
     (filter (\<lambda>r. getProp r ''verb'' = Some (JStr ''execute_script''))
        (arrayOr (getProp (quickPolicy state now) ''resource_rules'')))
   = [Some (JBool False)]
   \<and> map (\<lambda>r. getProp r ''allowed'')
     (filter (\<lambda>r. getProp r ''verb'' = Some (JStr ''upload_file''))
        (arrayOr (getProp (quickPolicy state now) ''resource_rules'')))
   = [Some (JBool False)]"
  by (simp add: quickPolicy_def getProp_def arrayOr_def quickRules_def ruleJson_def)

lemma quickRules_script_and_upload:
  "map allowed (filter (\<lambda>r. verb r = ''execute_script'') (quickRules state)) = [False]
   \<and> map allowed (filter (\<lambda>r. verb r = ''upload_file'') (quickRules state)) = [False]"
  by (simp add: quickRules_def)

text \<open>
  C6. For every builder state and timestamp, under the contract of the two built-ins
  (\<open>JSON.parse\<close> gives back the policy object from the text \<open>JSON.stringify\<close> wrote for
  it, and that text is not blank): the text that \<open>buildQuickPolicy\<close> returns decodes to
  a document whose \<open>resource_rules\<close> hold exactly one entry with the verb
  \<open>execute_script\<close> and exactly one with the verb \<open>upload_file\<close>, with \<open>allowed\<close> false
  in both; and \<open>parsePolicy\<close> reads from that text exactly one rule of each verb, not
  allowed. No field of the state reaches either flag.
\<close>

theorem buildQuickPolicy_script_and_upload_disallowed:
  assumes "parse (stringify (quickPolicy state now)) = Inr (quickPolicy state now)"
    and "trim (stringify (quickPolicy state now)) \<noteq> []"
  shows "(\<exists>doc. parse (buildQuickPolicy stringify state now) = Inr doc
            \<and> map (\<lambda>r. getProp r ''allowed'')
                (filter (\<lambda>r. getProp r ''verb'' = Some (JStr ''execute_script''))
                   (arrayOr (getProp doc ''resource_rules'')))
              = [Some (JBool False)]
            \<and> map (\<lambda>r. getProp r ''allowed'')
                (filter (\<lambda>r. getProp r ''verb'' = Some (JStr ''upload_file''))
                   (arrayOr (getProp doc ''resource_rules'')))
              = [Some (JBool False)])
         \<and> map allowed
             (filter (\<lambda>r. verb r = ''execute_script'')
                (resourceRules (parsePolicy parse (buildQuickPolicy stringify state now))))
           = [False]
         \<and> map allowed
             (filter (\<lambda>r. verb r = ''upload_file'')
                (resourceRules (parsePolicy parse (buildQuickPolicy stringify state now))))
           = [False]"
proof -
  have d: "parse (buildQuickPolicy stringify state now) = Inr (quickPolicy state now)"
    using assms(1) by (simp add: buildQuickPolicy_def)
  have n: "quickPolicy state now \<noteq> JNull"
    by (simp add: quickPolicy_def)
  have r: "arrayOr (getProp (quickPolicy state now) ''resource_rules'')
           = map ruleJson (quickRules state)"
    by (simp add: quickPolicy_def getProp_def arrayOr_def)
  from assms n have p: "resourceRules (parsePolicy parse (buildQuickPolicy stringify state now))
           = quickRules state"
    by (simp add: parsePolicy_def buildQuickPolicy_def r parse_rules_roundtrip)
  have e: "\<exists>doc. parse (buildQuickPolicy stringify state now) = Inr doc
            \<and> map (\<lambda>r. getProp r ''allowed'')
                (filter (\<lambda>r. getProp r ''verb'' = Some (JStr ''execute_script''))
                   (arrayOr (getProp doc ''resource_rules'')))
              = [Some (JBool False)]
            \<and> map (\<lambda>r. getProp r ''allowed'')
                (filter (\<lambda>r. getProp r ''verb'' = Some (JStr ''upload_file''))
                   (arrayOr (getProp doc ''resource_rules'')))
              = [Some (JBool False)]" (is "\<exists>doc. ?P doc")
  proof (rule exI)
    from d quickPolicy_script_and_upload [of state now]
    show "?P (quickPolicy state now)"
      by (simp only: simp_thms)
  qed
  from quickRules_script_and_upload [of state]
  have q: "map allowed (filter (\<lambda>r. verb r = ''execute_script'') (quickRules state)) = [False]"
    "map allowed (filter (\<lambda>r. verb r = ''upload_file'') (quickRules state)) = [False]"
    by (simp_all only: simp_thms)
  from e q show ?thesis
    unfolding p by (intro conjI)
qed

theorem buildQuickPolicy_script_and_upload_disallowed_witness:
  "buildQuickPolicy sampleStringify sampleState sampleNow = samplePolicyText
   \<and> sampleParse samplePolicyText = Inr samplePolicy
   \<and> trim samplePolicyText \<noteq> []
   \<and> map (\<lambda>r. getProp r ''allowed'')
       (filter (\<lambda>r. getProp r ''verb'' = Some (JStr ''execute_script''))
          (arrayOr (getProp samplePolicy ''resource_rules'')))
     = [Some (JBool False)]
   \<and> map allowed
       (filter (\<lambda>r. verb r = ''execute_script'')
          (resourceRules (parsePolicy sampleParse samplePolicyText)))
     = [False]
   \<and> map allowed
       (filter (\<lambda>r. verb r = ''upload_file'')
          (resourceRules (parsePolicy sampleParse samplePolicyText)))
     = [False]"
proof -
  have s: "sampleStringify samplePolicy = samplePolicyText"
    by (simp add: sampleStringify_def)
  have p: "sampleParse (sampleStringify (quickPolicy sampleState sampleNow))
           = Inr (quickPolicy sampleState sampleNow)"
    by (simp add: quickPolicy_sample s sampleParse_policy)
  have t: "trim (sampleStringify (quickPolicy sampleState sampleNow)) \<noteq> []"
    by (simp add: quickPolicy_sample s samplePolicyText_nonblank)
  have b: "buildQuickPolicy sampleStringify sampleState sampleNow = samplePolicyText"
    by (simp add: buildQuickPolicy_def quickPolicy_sample s)
  have e: "map (\<lambda>r. getProp r ''allowed'')
       (filter (\<lambda>r. getProp r ''verb'' = Some (JStr ''execute_script''))
          (arrayOr (getProp samplePolicy ''resource_rules'')))
     = [Some (JBool False)]"
    using quickPolicy_script_and_upload [of sampleState sampleNow]
    by (simp only: quickPolicy_sample simp_thms)
  from buildQuickPolicy_script_and_upload_disallowed
      [of sampleParse sampleStringify sampleState sampleNow, OF p t]
  have "map allowed
       (filter (\<lambda>r. verb r = ''execute_script'')
          (resourceRules (parsePolicy sampleParse samplePolicyText)))
     = [False]
   \<and> map allowed
       (filter (\<lambda>r. verb r = ''upload_file'')
          (resourceRules (parsePolicy sampleParse samplePolicyText)))
     = [False]"
    unfolding b by (elim conjE) (intro conjI)
  with b sampleParse_policy samplePolicyText_nonblank e show ?thesis
    by (intro conjI) (simp_all only: simp_thms)
qed

section \<open>Truncation flags\<close>

lemma trim_no_space:
  "\<forall>c \<in> set s. \<not> isWhiteSpace c \<Longrightarrow> trim s = s"
proof -
  assume a: "\<forall>c \<in> set s. \<not> isWhiteSpace c"
  have d: "dropWhile isWhiteSpace t = t" if "\<forall>c \<in> set t. \<not> isWhiteSpace c" for t
    using that by (cases t) auto
  from a have "dropWhile isWhiteSpace (rev s) = rev s"
    by (intro d) simp
  with a show ?thesis
    by (simp add: trim_def d)
qed

lemma collapseWhitespace_no_space:
  "\<forall>c \<in> set s. \<not> isWhiteSpace c \<Longrightarrow> collapseWhitespace s = s"
  by (induction s) auto

lemma truncate_str_cut:
  "0 \<le> m \<Longrightarrow> m < int (length s) \<Longrightarrow> truncate_str s m = take (nat m) s @ ''...''"
  by (simp add: truncate_str_def slice0_def)

lemma truncate_str_flag:
  "0 \<le> m \<Longrightarrow> length (truncate_str s m) < length s \<longleftrightarrow> m + 3 < int (length s)"
  by (auto simp add: truncate_str_def slice0_def)

text \<open>
  C1. The claim asks for \<open>isTextTruncated\<close> exactly when the collapsed and trimmed
  text is longer than \<open>maxTextChars\<close>, and likewise for the markup. The code compares
  the original length with the length of the truncated text after the marker is
  appended (\<open>truncate_str_flag\<close>), so a text one to three characters over the ceiling is
  cut and marked while the flag stays false. Here, with the default ceilings: a text of
  12001 characters and a body markup of 20001 characters.
\<close>

theorem pageSummary_flags_miss_truncation:
  "defaultMaxTextChars < int (length (trim (collapseWhitespace (replicate 12001 CHR ''a''))))
   \<and> defaultMaxHtmlChars < int (length (trim (replicate 20001 CHR ''a'')))
   \<and> textContent
     (pageSummary None (replicate 12001 CHR ''a'') defaultMaxHtmlChars defaultMaxTextChars)
     = replicate 12000 CHR ''a'' @ ''...''
   \<and> isTextTruncated
     (pageSummary None (replicate 12001 CHR ''a'') defaultMaxHtmlChars defaultMaxTextChars)
     = False
   \<and> htmlContent
     (pageSummary (Some (replicate 20001 CHR ''a'')) [] defaultMaxHtmlChars
        defaultMaxTextChars)
     = replicate 20000 CHR ''a'' @ ''...''
   \<and> isHtmlTruncated
     (pageSummary (Some (replicate 20001 CHR ''a'')) [] defaultMaxHtmlChars
        defaultMaxTextChars)
     = False"
proof -
  have ns: "\<forall>c \<in> set (replicate n CHR ''a''). \<not> isWhiteSpace c" for n
    by (simp add: isWhiteSpace_def)
  have t: "trim (collapseWhitespace (replicate n CHR ''a'')) = replicate n CHR ''a''" for n
    using ns [of n] by (simp add: trim_no_space collapseWhitespace_no_space)
  have h: "trim (replicate n CHR ''a'') = replicate n CHR ''a''" for n
    using ns [of n] by (simp add: trim_no_space)
  have c1: "truncate_str (replicate 12001 CHR ''a'') 12000
            = replicate 12000 CHR ''a'' @ ''...''"
    by (simp add: truncate_str_cut)
  have c2: "truncate_str (replicate 20001 CHR ''a'') 20000
            = replicate 20000 CHR ''a'' @ ''...''"
    by (simp add: truncate_str_cut)
  show ?thesis
    by (simp add: pageSummary_def Let_def t h c1 c2 defaultMaxHtmlChars_def
        defaultMaxTextChars_def)
qed

section \<open>Applicable blocks and the crawl delay\<close>

lemma splitOn_first:
  "splitOn d s = takeWhile (\<lambda>c. c \<noteq> d) s
     # (case dropWhile (\<lambda>c. c \<noteq> d) s of [] \<Rightarrow> [] | x # r \<Rightarrow> splitOn d r)"
  by (induction s) (auto split: list.splits)

lemma splitOn_not_Nil: "splitOn d s \<noteq> []"
  by (subst splitOn_first) simp

lemma joinWith_splitOn: "joinWith d (splitOn d s) = s"
proof (induction s)
  case Nil
  show ?case by simp
next
  case (Cons c cs)
  obtain l ls where e: "splitOn d cs = l # ls"
    using splitOn_not_Nil [of d cs] by (cases "splitOn d cs") auto
  with Cons show ?case
    by (cases ls) auto
qed

lemma splitOn_parts:
  assumes "splitOn d s = k # rest"
  shows "takeWhile (\<lambda>c. c \<noteq> d) s = k
         \<and> (dropWhile (\<lambda>c. c \<noteq> d) s = [] \<longleftrightarrow> rest = [])
         \<and> tl (dropWhile (\<lambda>c. c \<noteq> d) s) = joinWith d rest"
proof (cases "dropWhile (\<lambda>c. c \<noteq> d) s")
  case Nil
  with splitOn_first [of d s] have "splitOn d s = [takeWhile (\<lambda>c. c \<noteq> d) s]"
    by (simp only: list.case)
  with assms have "k = takeWhile (\<lambda>c. c \<noteq> d) s" "rest = []"
    by simp_all
  then show ?thesis
    by (simp only: Nil list.sel joinWith.simps simp_thms)
next
  case (Cons x r)
  with splitOn_first [of d s]
  have "splitOn d s = takeWhile (\<lambda>c. c \<noteq> d) s # splitOn d r"
    by (simp only: list.case)
  with assms have "k = takeWhile (\<lambda>c. c \<noteq> d) s" "rest = splitOn d r"
    by simp_all
  then show ?thesis
    by (simp only: Cons joinWith_splitOn splitOn_not_Nil list.sel simp_thms list.distinct)
qed

lemma robotsLine_directive:
  "robotsLine (rules, applies) line =
     (case directiveOf line of
        None \<Rightarrow> (rules, applies)
      | Some (key, val) \<Rightarrow>
          if key = ''user-agent''
          then (rules, toLowerCase val = ''*''
                       \<or> includes_str (toLowerCase val) ''agent-permissions'')
          else if \<not> applies then (rules, applies)
          else if key = ''disallow''
          then (if val \<noteq> [] then (rules\<lparr>disallow := disallow rules @ [val]\<rparr>, applies)
                else (rules, applies))
          else if key = ''allow''
          then (if val \<noteq> [] then (rules\<lparr>allow := allow rules @ [val]\<rparr>, applies)
                else (rules, applies))
          else if key = ''crawl-delay''
          then (if isFinite (parseFloat val)
                then (rules\<lparr>crawlDelay := Some (parseFloat val)\<rparr>, applies)
                else (rules, applies))
          else (rules, applies))"
proof -
  obtain k rest where e: "splitOn CHR '':'' (trim line) = k # rest"
    using splitOn_not_Nil [of "CHR '':''" "trim line"]
    by (cases "splitOn CHR '':'' (trim line)") auto
  from splitOn_parts [OF e] show ?thesis
    by (simp add: robotsLine_def directiveOf_def Let_def e)
qed

lemma robotsLine_skip:
  "\<not> agentLine line \<Longrightarrow> robotsLine (rules, False) line = (rules, False)"
  by (auto simp add: robotsLine_directive agentLine_def split: option.splits)

lemma robotsLoop_skip:
  "\<forall>l \<in> set pre. \<not> agentLine l \<Longrightarrow> foldl robotsLine (rules, False) pre = (rules, False)"
  by (induction pre) (simp_all add: robotsLine_skip)

text \<open>
  C8. If no line of the text is a user-agent directive for \<open>*\<close> or for a value that
  contains the agent token, \<open>parseRobots\<close> returns the empty rule set. More generally
  the lines that come before the first such directive contribute nothing: the result
  is the one the loop gives on the remaining lines alone.
\<close>

theorem parseRobots_before_agent_line:
  "((\<forall>l \<in> set (splitLines content). \<not> agentLine l)
      \<longrightarrow> parseRobots content = \<lparr>disallow = [], allow = [], crawlDelay = None\<rparr>)
   \<and> (splitLines content = pre @ post \<and> (\<forall>l \<in> set pre. \<not> agentLine l)
      \<longrightarrow> parseRobots content = robotsLoop post)"
  by (simp add: parseRobots_def robotsLoop_def robotsLoop_skip noRules_def)

lemma robotsLine_crawlDelay:
  "crawlDelay (fst st) = None \<or> (\<exists>q. crawlDelay (fst st) = Some (Finite q)) \<Longrightarrow>
   crawlDelay (fst (robotsLine st line)) = None
   \<or> (\<exists>q. crawlDelay (fst (robotsLine st line)) = Some (Finite q))"
  by (cases st) (auto simp add: robotsLine_directive isFinite_def split: option.splits jsnum.splits)

lemma robotsLoop_crawlDelay:
  "crawlDelay (fst st) = None \<or> (\<exists>q. crawlDelay (fst st) = Some (Finite q)) \<Longrightarrow>
   crawlDelay (fst (foldl robotsLine st ls)) = None
   \<or> (\<exists>q. crawlDelay (fst (foldl robotsLine st ls)) = Some (Finite q))"
proof (induction ls arbitrary: st)
  case Nil
  then show ?case by simp
next
  case (Cons l ls)
  from Cons.prems have "crawlDelay (fst (robotsLine st l)) = None
     \<or> (\<exists>q. crawlDelay (fst (robotsLine st l)) = Some (Finite q))"
    by (rule robotsLine_crawlDelay)
  then show ?case
    using Cons.IH [of "robotsLine st l"] by simp
qed

text \<open>
  C4, as amended. For every text, the crawl delay of the parsed rule set is absent or a
  finite number; and in an applicable block a crawl-delay directive stores the number
  \<open>parseFloat\<close> reads from its value, over any earlier one, when that number is finite,
  and changes nothing otherwise. The claim as written also asks for a non-negative
  number: the code checks \<open>Number.isFinite\<close> only, and keeps a negative delay.
\<close>

theorem parseRobots_crawlDelay_finite:
  "(crawlDelay (parseRobots content) = None
    \<or> (\<exists>q. crawlDelay (parseRobots content) = Some (Finite q)))
   \<and> (directiveOf line = Some (''crawl-delay'', v)
      \<longrightarrow> robotsLine (rules, True) line
          = (if isFinite (parseFloat v) then (rules\<lparr>crawlDelay := Some (parseFloat v)\<rparr>, True)
             else (rules, True)))"
proof -
  have "crawlDelay (fst (noRules, False)) = None
    \<or> (\<exists>q. crawlDelay (fst (noRules, False)) = Some (Finite q))"
    by (simp add: noRules_def)
  then have "crawlDelay (parseRobots content) = None
    \<or> (\<exists>q. crawlDelay (parseRobots content) = Some (Finite q))"
    unfolding parseRobots_def robotsLoop_def by (rule robotsLoop_crawlDelay)
  then show ?thesis
    by (simp add: robotsLine_directive)
qed

theorem parseRobots_negative_delay_counterexample:
  "parseRobots ''User-agent: *\<newline>Crawl-delay: -5''
   = \<lparr>disallow = [], allow = [], crawlDelay = Some (Finite (- 5))\<rparr>"
  by code_simp


theorem parseRobots_before_agent_line_witness:
  "splitLines ''User-agent: other-bot\<newline>Disallow: /admin\<newline>Crawl-delay: 2.5''
     = [''User-agent: other-bot'', ''Disallow: /admin'', ''Crawl-delay: 2.5'']
   \<and> \<not> agentLine ''User-agent: other-bot'' \<and> \<not> agentLine ''Disallow: /admin''
   \<and> \<not> agentLine ''Crawl-delay: 2.5''
   \<and> parseRobots ''User-agent: other-bot\<newline>Disallow: /admin\<newline>Crawl-delay: 2.5''
     = \<lparr>disallow = [], allow = [], crawlDelay = None\<rparr>
   \<and> splitLines ''Disallow: /x\<newline>User-agent: *\<newline>Disallow: /admin''
     = [''Disallow: /x''] @ [''User-agent: *'', ''Disallow: /admin'']
   \<and> \<not> agentLine ''Disallow: /x''
   \<and> parseRobots ''Disallow: /x\<newline>User-agent: *\<newline>Disallow: /admin''
     = \<lparr>disallow = [''/admin''], allow = [], crawlDelay = None\<rparr>"
proof -
  have s1: "splitLines ''User-agent: other-bot\<newline>Disallow: /admin\<newline>Crawl-delay: 2.5''
     = [''User-agent: other-bot'', ''Disallow: /admin'', ''Crawl-delay: 2.5'']"
    by code_simp
  have a1: "\<not> agentLine ''User-agent: other-bot''"
    by code_simp
  have a2: "\<not> agentLine ''Disallow: /admin''"
    by code_simp
  have a3: "\<not> agentLine ''Crawl-delay: 2.5''"
    by code_simp
  have s2: "splitLines ''Disallow: /x\<newline>User-agent: *\<newline>Disallow: /admin''
     = [''Disallow: /x''] @ [''User-agent: *'', ''Disallow: /admin'']"
    by code_simp
  have a4: "\<not> agentLine ''Disallow: /x''"
    by code_simp
  have p: "robotsLoop [''User-agent: *'', ''Disallow: /admin'']
     = \<lparr>disallow = [''/admin''], allow = [], crawlDelay = None\<rparr>"
    by code_simp
  from
    parseRobots_before_agent_line
      [of "''User-agent: other-bot\<newline>Disallow: /admin\<newline>Crawl-delay: 2.5''" "[]" "[]"]
    parseRobots_before_agent_line
      [of "''Disallow: /x\<newline>User-agent: *\<newline>Disallow: /admin''" "[''Disallow: /x'']"
        "[''User-agent: *'', ''Disallow: /admin'']"]
    s1 a1 a2 a3 s2 a4 p
  show ?thesis
    by simp
qed

theorem parseRobots_crawlDelay_finite_witness:
  "crawlDelay (parseRobots ''User-agent: *\<newline>Disallow: /admin\<newline>Crawl-delay: 2.5'')
     = Some (Finite (5 / 2))
   \<and> directiveOf ''Crawl-delay: 2.5'' = Some (''crawl-delay'', ''2.5'')
   \<and> parseFloat ''2.5'' = Finite (5 / 2)
   \<and> robotsLine (noRules, True) ''Crawl-delay: 2.5''
     = (noRules\<lparr>crawlDelay := Some (Finite (5 / 2))\<rparr>, True)"
proof -
  have c: "crawlDelay (parseRobots ''User-agent: *\<newline>Disallow: /admin\<newline>Crawl-delay: 2.5'')
     = Some (Finite (5 / 2))"
    by code_simp
  have d: "directiveOf ''Crawl-delay: 2.5'' = Some (''crawl-delay'', ''2.5'')"
    by code_simp
  have f: "parseFloat ''2.5'' = Finite (5 / 2)"
    by code_simp
  from
    parseRobots_crawlDelay_finite
      [of "''User-agent: *\<newline>Disallow: /admin\<newline>Crawl-delay: 2.5''"
        "''Crawl-delay: 2.5''" "''2.5''" noRules]
    c d f
  show ?thesis
    by (simp add: isFinite_def)
qed

end
